theory Spec2Isabelle
  imports Main "HOL-Library.Sublist"
begin

section \<open>JavaScript primitives used by reader.js\<close>

text \<open>
  Strings are \<^typ>\<open>string\<close>, one \<^typ>\<open>char\<close> per code unit, so that white space and
  letter case are those of the Latin-1 range. Numbers that reader.js handles are array
  indices and chapter numbers: they are modelled as \<^typ>\<open>int\<close>, and the one place where
  a number can be NaN (the result of \<open>parseInt\<close>) is an \<^typ>\<open>int option\<close> with \<open>None\<close>
  for NaN.
\<close>

subsection \<open>Number to string, as in a template literal\<close>

definition digit_char :: "nat \<Rightarrow> char" where
  "digit_char d = char_of (48 + d)"

fun toString_nat :: "nat \<Rightarrow> string" where
  "toString_nat n =
     (if n < 10 then [digit_char n] else toString_nat (n div 10) @ [digit_char (n mod 10)])"

declare toString_nat.simps [simp del]

definition toString :: "int \<Rightarrow> string" where
  "toString i = (if i < 0 then CHR ''-'' # toString_nat (nat (- i)) else toString_nat (nat i))"

text \<open>A value that may be \<open>null\<close> (the result of \<open>getItem\<close>, of \<open>params.get\<close>), as a string.\<close>

definition toString_nullable :: "string option \<Rightarrow> string" where
  "toString_nullable v = (case v of None \<Rightarrow> ''null'' | Some x \<Rightarrow> x)"

subsection \<open>\<open>parseInt(string, 10)\<close>\<close>

definition isWhiteSpace :: "char \<Rightarrow> bool" where
  "isWhiteSpace c = (of_char c \<in> {9, 10, 11, 12, 13, 32, 160 :: nat})"

definition isDigit :: "char \<Rightarrow> bool" where
  "isDigit c = (48 \<le> (of_char c :: nat) \<and> (of_char c :: nat) \<le> 57)"

definition digit_value :: "char \<Rightarrow> nat" where
  "digit_value c = of_char c - 48"

definition digits_value :: "string \<Rightarrow> nat" where
  "digits_value Z = foldl (\<lambda>acc c. 10 * acc + digit_value c) 0 Z"

text \<open>
  Leading white space is dropped, one sign is read, then the longest run of decimal
  digits; no digit at all gives NaN. What follows the digits is ignored.
\<close>

definition parseInt :: "string \<Rightarrow> int option" where
  "parseInt inputString =
     (let S = dropWhile isWhiteSpace inputString;
          sign = (case S of c # _ \<Rightarrow> (if c = CHR ''-'' then - 1 else 1) | [] \<Rightarrow> (1 :: int));
          S1 = (case S of c # cs \<Rightarrow> (if c = CHR ''+'' \<or> c = CHR ''-'' then cs else S) | [] \<Rightarrow> S);
          Z = takeWhile isDigit S1
      in if Z = [] then None else Some (sign * int (digits_value Z)))"

text \<open>\<open>x || 0\<close> on a number: NaN and 0 are falsy.\<close>

definition or_zero :: "int option \<Rightarrow> int" where
  "or_zero x = (case x of None \<Rightarrow> 0 | Some n \<Rightarrow> n)"

text \<open>\<open>x || d\<close> on a string or \<open>null\<close>: \<open>null\<close> and the empty string are falsy.\<close>

definition or_default :: "string option \<Rightarrow> string \<Rightarrow> string" where
  "or_default x d = (case x of None \<Rightarrow> d | Some v \<Rightarrow> (if v = [] then d else v))"

subsection \<open>\<open>toLowerCase\<close> and \<open>includes\<close>\<close>

definition lower_char :: "char \<Rightarrow> char" where
  "lower_char c =
     (if 65 \<le> (of_char c :: nat) \<and> (of_char c :: nat) \<le> 90 then char_of (of_char c + 32 :: nat) else c)"

definition toLowerCase :: "string \<Rightarrow> string" where
  "toLowerCase s = map lower_char s"

fun startsWith :: "string \<Rightarrow> string \<Rightarrow> bool" where
  "startsWith s [] = True"
| "startsWith [] (c # cs) = False"
| "startsWith (d # ds) (c # cs) = (d = c \<and> startsWith ds cs)"

fun includes_str :: "string \<Rightarrow> string \<Rightarrow> bool" where
  "includes_str [] t = (t = [])"
| "includes_str (c # cs) t = (startsWith (c # cs) t \<or> includes_str cs t)"

section \<open>Data model\<close>

text \<open>A chapter descriptor of the manifest: \<open>{number, title, file}\<close> (the field \<open>file\<close> is \<open>file_name\<close> here).\<close>

record chapter_descriptor =
  number :: int
  title :: string
  file_name :: string

text \<open>
  \<open>response.json()\<close> builds one fresh object per array element. An element of
  \<open>chapters\<close> is therefore a pair of the object's identity and its descriptor, and
  \<open>===\<close> on two such objects compares identities, not contents.
\<close>

type_synonym chapter_obj = "nat \<times> chapter_descriptor"

definition json_array :: "chapter_descriptor list \<Rightarrow> chapter_obj list" where
  "json_array ds = enumerate 0 ds"

definition same_object :: "chapter_obj \<Rightarrow> chapter_obj \<Rightarrow> bool" where
  "same_object a b = (fst a = fst b)"

fun indexOf_from :: "chapter_obj list \<Rightarrow> chapter_obj \<Rightarrow> int \<Rightarrow> int" where
  "indexOf_from [] x k = - 1"
| "indexOf_from (y # ys) x k = (if same_object y x then k else indexOf_from ys x (k + 1))"

definition indexOf :: "chapter_obj list \<Rightarrow> chapter_obj \<Rightarrow> int" where
  "indexOf xs x = indexOf_from xs x 0"

text \<open>
  What a fetch resolves to: the status, the body as text (\<open>None\<close> when reading it
  rejects) and the body as a decoded manifest (\<open>None\<close> when it does not parse).
  The network maps a path to a response, or to \<open>None\<close> when the fetch itself rejects.
\<close>

datatype response = Response (status: nat) (body_text: "string option") (body_json: "chapter_descriptor list option")

definition ok :: "response \<Rightarrow> bool" where
  "ok r = (200 \<le> status r \<and> status r \<le> 299)"

type_synonym network = "string \<Rightarrow> response option"

text \<open>The content area holds what was last assigned: markup (\<open>innerHTML\<close>) or plain text (\<open>textContent\<close>).\<close>

datatype content = InnerHTML string | TextContent string

text \<open>An anchor of the chapter list: its \<open>data-index\<close> attribute and its label.\<close>

record anchor =
  data_index :: string
  label :: string

text \<open>
  The three variables of the enclosing scope, the parts of the page that reader.js writes,
  the local storage, and the list of paths fetched so far (oldest first). An element
  holds the value that the script assigned to it last: what the browser then does with
  that value (parsing markup, checking a style value, fitting a slider value to its
  range) is outside the script and outside this state, and so is the console.
\<close>

record state =
  novelFolder :: "string option"
  chapters :: "chapter_obj list"
  currentChapterIndex :: int
  novelTitleEl :: string
  document_title :: string
  chapterContentEl :: content
  chapterContent_fontSize :: string
  chapterContent_lineHeight :: string
  chapterIndicatorEl :: string
  prevBtn_disabled :: bool
  nextBtn_disabled :: bool
  chapterModal_visible :: bool
  settingsModal_visible :: bool
  chapterListEl :: "anchor list"
  fontSizeSlider :: string
  fontSizeValueEl :: string
  lineHeightSlider :: string
  lineHeightValueEl :: string
  data_theme :: "string option"
  scroll :: "int \<times> int"
  localStorage :: "string \<rightharpoonup> string"
  requests :: "string list"

section \<open>Core functions\<close>

definition fetch :: "network \<Rightarrow> string \<Rightarrow> state \<Rightarrow> response option \<times> state" where
  "fetch net path s = (net path, s\<lparr>requests := requests s @ [path]\<rparr>)"

definition llmPath :: "string option \<Rightarrow> chapter_descriptor \<Rightarrow> string" where
  "llmPath folder chapter = toString_nullable folder @ ''/llm_chapters/'' @ file_name chapter"

definition rawPath :: "string option \<Rightarrow> chapter_descriptor \<Rightarrow> string" where
  "rawPath folder chapter = toString_nullable folder @ ''/raw_chapters/'' @ file_name chapter"

definition lastChapterKey :: "string option \<Rightarrow> string" where
  "lastChapterKey folder = ''lastChapter-'' @ toString_nullable folder"

definition loading_text :: "chapter_descriptor \<Rightarrow> string" where
  \<open>loading_text chapter =
     ''<p class="loading-text">Loading Chapter '' @ toString (number chapter) @ '': '' @
     title chapter @ ''...</p>''\<close>

definition failed_text :: string where
  \<open>failed_text = ''<p class="loading-text">Failed to load chapter. Please try again.</p>''\<close>

definition updateUI :: "state \<Rightarrow> state" where
  "updateUI s =
     s\<lparr>prevBtn_disabled := (currentChapterIndex s = 0),
       nextBtn_disabled := (currentChapterIndex s = int (length (chapters s)) - 1),
       chapterIndicatorEl :=
         ''Chapter '' @ toString (currentChapterIndex s + 1) @ '' / '' @
         toString (int (length (chapters s)))\<rparr>"

text \<open>
  Lines 37 to 44 of \<open>loadChapter\<close>, the part of the \<open>try\<close> block that can throw: the
  preferred fetch, the fallback fetch after a 404, the test of \<open>response.ok\<close> and the
  reading of the body. \<open>None\<close> is a throw (or a rejected promise).
\<close>

definition fetch_chapter :: "network \<Rightarrow> string \<Rightarrow> string \<Rightarrow> state \<Rightarrow> string option \<times> state" where
  "fetch_chapter net llm raw s =
     (case fetch net llm s of
        (None, s1) \<Rightarrow> (None, s1)
      | (Some response, s1) \<Rightarrow>
          (case (if status response = 404 then fetch net raw s1 else (Some response, s1)) of
             (None, s2) \<Rightarrow> (None, s2)
           | (Some response', s2) \<Rightarrow>
               (if \<not> ok response' then (None, s2) else (body_text response', s2))))"

definition loadChapter :: "network \<Rightarrow> int \<Rightarrow> state \<Rightarrow> state" where
  "loadChapter net index s =
     (if index < 0 \<or> index \<ge> int (length (chapters s)) then s
      else
        let s1 = s\<lparr>currentChapterIndex := index\<rparr>;
            chapter = snd (chapters s1 ! nat index);
            s2 = s1\<lparr>chapterContentEl := InnerHTML (loading_text chapter)\<rparr>
        in case fetch_chapter net (llmPath (novelFolder s2) chapter) (rawPath (novelFolder s2) chapter) s2 of
             (Some text, s3) \<Rightarrow>
               (updateUI (s3\<lparr>chapterContentEl := TextContent text, scroll := (0, 0)\<rparr>))
                 \<lparr>localStorage := (localStorage s3)(lastChapterKey (novelFolder s3) \<mapsto> toString index)\<rparr>
           | (None, s3) \<Rightarrow> s3\<lparr>chapterContentEl := InnerHTML failed_text\<rparr>)"

definition populateChapterList :: "chapter_obj list \<Rightarrow> state \<Rightarrow> state" where
  "populateChapterList chaptersToRender s =
     s\<lparr>chapterListEl :=
         map (\<lambda>chap. \<lparr>data_index = toString (indexOf (chapters s) chap),
                       label = toString (number (snd chap)) @ ''. '' @ title (snd chap)\<rparr>)
           chaptersToRender\<rparr>"

definition applySetting :: "string \<Rightarrow> string \<Rightarrow> state \<Rightarrow> state" where
  "applySetting key value s =
     (let s1 = s\<lparr>localStorage := (localStorage s)(key \<mapsto> value)\<rparr>
      in if key = ''fontSize'' then
           s1\<lparr>chapterContent_fontSize := value @ ''px'', fontSizeValueEl := value @ ''px''\<rparr>
         else if key = ''lineHeight'' then
           s1\<lparr>chapterContent_lineHeight := value, lineHeightValueEl := value\<rparr>
         else if key = ''theme'' then
           s1\<lparr>data_theme := Some value\<rparr>
         else s1)"

definition loadSettings :: "state \<Rightarrow> state" where
  "loadSettings s =
     (let settings =
            [(''fontSize'', or_default (localStorage s ''fontSize'') ''18''),
             (''lineHeight'', or_default (localStorage s ''lineHeight'') ''1.8''),
             (''theme'', or_default (localStorage s ''theme'') ''light'')];
          s1 = s\<lparr>fontSizeSlider := snd (settings ! 0)\<rparr>;
          s2 = s1\<lparr>lineHeightSlider := snd (settings ! 1)\<rparr>
      in foldl (\<lambda>st (key, v). applySetting key v st) s2 settings)"

section \<open>Initialization\<close>

definition readableTitle :: "string \<Rightarrow> string" where
  "readableTitle folder = map (\<lambda>c. if c = CHR ''-'' then CHR '' '' else c) folder"

definition manifestPath :: "string option \<Rightarrow> string" where
  "manifestPath folder = toString_nullable folder @ ''/manifest.json''"

text \<open>Line 115: \<open>parseInt(localStorage.getItem(`lastChapter-${novelFolder}`), 10) || 0\<close>.\<close>

definition lastChapterIndex :: "state \<Rightarrow> int" where
  "lastChapterIndex s =
     or_zero (parseInt (toString_nullable (localStorage s (lastChapterKey (novelFolder s)))))"

text \<open>The \<open>catch\<close> block of \<open>init\<close>.\<close>

definition init_catch :: "state \<Rightarrow> state" where
  "init_catch s = s\<lparr>novelTitleEl := ''Could not load novel.''\<rparr>"

text \<open>
  \<open>init\<close>, with the value of \<open>params.get('novel')\<close> as an argument (\<open>None\<close> is \<open>null\<close>).
  \<open>loadChapter\<close> is the last thing \<open>init\<close> does, so running it to its end here is what
  the unawaited call comes to when no other event arrives meanwhile.
\<close>

definition init :: "network \<Rightarrow> string option \<Rightarrow> state \<Rightarrow> state" where
  "init net novel s =
     (let s1 = s\<lparr>novelFolder := novel\<rparr>
      in if novel = None \<or> novel = Some [] then s1\<lparr>novelTitleEl := ''Novel not found in URL.''\<rparr>
         else
           let s2 = s1\<lparr>novelTitleEl := readableTitle (toString_nullable novel),
                       document_title := readableTitle (toString_nullable novel)\<rparr>
           in case fetch net (manifestPath (novelFolder s2)) s2 of
                (None, s3) \<Rightarrow> init_catch s3
              | (Some response, s3) \<Rightarrow>
                  (if \<not> ok response then init_catch s3
                   else case body_json response of
                          None \<Rightarrow> init_catch s3
                        | Some ds \<Rightarrow>
                            let s4 = s3\<lparr>chapters := json_array ds\<rparr>;
                                s5 = populateChapterList (chapters s4) s4
                            in loadChapter net (lastChapterIndex s5) s5))"

text \<open>
  The variable initialisers of lines 3 to 5, over a page whose elements hold whatever
  the HTML gave them, and the two calls that end the \<open>DOMContentLoaded\<close> listener.
\<close>

definition boot :: "state \<Rightarrow> state" where
  "boot page = page\<lparr>novelFolder := Some [], chapters := [], currentChapterIndex := 0\<rparr>"

definition domContentLoaded :: "network \<Rightarrow> string option \<Rightarrow> state \<Rightarrow> state" where
  "domContentLoaded net novel page = init net novel (loadSettings (boot page))"

section \<open>Event listeners\<close>

text \<open>A disabled button receives no click, from the user or from \<open>click()\<close>.\<close>

definition prevBtn_click :: "network \<Rightarrow> state \<Rightarrow> state" where
  "prevBtn_click net s =
     (if prevBtn_disabled s then s else loadChapter net (currentChapterIndex s - 1) s)"

definition nextBtn_click :: "network \<Rightarrow> state \<Rightarrow> state" where
  "nextBtn_click net s =
     (if nextBtn_disabled s then s else loadChapter net (currentChapterIndex s + 1) s)"

definition keydown :: "network \<Rightarrow> string \<Rightarrow> state \<Rightarrow> state" where
  "keydown net key s =
     (let s1 = (if key = ''ArrowLeft'' then prevBtn_click net s else s)
      in if key = ''ArrowRight'' then nextBtn_click net s1 else s1)"

text \<open>
  A click on an anchor of the chapter list. The \<open>data-index\<close> attribute goes through
  \<open>parseInt\<close>; NaN would pass both comparisons of the range test of \<open>loadChapter\<close> and
  make \<open>chapters[index]\<close> undefined, which the model has no value for: that is \<open>None\<close>.
\<close>

definition chapterList_click :: "network \<Rightarrow> anchor \<Rightarrow> state \<Rightarrow> state option" where
  "chapterList_click net target s =
     (case parseInt (data_index target) of
        None \<Rightarrow> None
      | Some index \<Rightarrow> Some ((loadChapter net index s)\<lparr>chapterModal_visible := False\<rparr>))"

definition chapterSearch_input :: "string \<Rightarrow> state \<Rightarrow> state" where
  "chapterSearch_input v s =
     (let searchTerm = toLowerCase v;
          filteredChapters =
            filter (\<lambda>c. includes_str (toLowerCase (title (snd c))) searchTerm) (chapters s)
      in populateChapterList filteredChapters s)"

definition themeToggle_click :: "state \<Rightarrow> state" where
  "themeToggle_click s =
     (let newTheme = (if data_theme s = Some ''dark'' then ''light'' else ''dark'')
      in applySetting ''theme'' newTheme s)"

datatype modal = ChapterModal | SettingsModal

datatype event =
    PrevClick
  | NextClick
  | KeyDown string
  | ChapterListBtnClick
  | SettingsBtnClick
  | CloseClick modal
  | ChapterListClick nat
  | ChapterSearchInput string
  | FontSizeInput string
  | LineHeightInput string
  | ThemeToggleClick

text \<open>
  One event, handled to its end. \<open>ChapterListClick n\<close> is a click on the \<open>n\<close>-th anchor
  of the list as it is rendered; a click that hits no anchor changes nothing.
\<close>

fun handle :: "network \<Rightarrow> event \<Rightarrow> state \<Rightarrow> state option" where
  "handle net PrevClick s = Some (prevBtn_click net s)"
| "handle net NextClick s = Some (nextBtn_click net s)"
| "handle net (KeyDown key) s = Some (keydown net key s)"
| "handle net ChapterListBtnClick s = Some (s\<lparr>chapterModal_visible := True\<rparr>)"
| "handle net SettingsBtnClick s = Some (s\<lparr>settingsModal_visible := True\<rparr>)"
| "handle net (CloseClick ChapterModal) s = Some (s\<lparr>chapterModal_visible := False\<rparr>)"
| "handle net (CloseClick SettingsModal) s = Some (s\<lparr>settingsModal_visible := False\<rparr>)"
| "handle net (ChapterListClick n) s =
     (if n < length (chapterListEl s) then chapterList_click net (chapterListEl s ! n) s else Some s)"
| "handle net (ChapterSearchInput v) s = Some (chapterSearch_input v s)"
| "handle net (FontSizeInput v) s = Some (applySetting ''fontSize'' v s)"
| "handle net (LineHeightInput v) s = Some (applySetting ''lineHeight'' v s)"
| "handle net ThemeToggleClick s = Some (themeToggle_click s)"

text \<open>
  A session after the page has loaded: the events in the order they arrive, each with
  the network as it answers while that event is handled.
\<close>

fun run :: "(network \<times> event) list \<Rightarrow> state \<Rightarrow> state option" where
  "run [] s = Some s"
| "run ((net, e) # es) s = (case handle net e s of None \<Rightarrow> None | Some s' \<Rightarrow> run es s')"

section \<open>A concrete page\<close>

text \<open>
  The scenario of the specification: the novel \<open>demo\<close> with two chapters, on a page
  with empty elements and an empty storage.
\<close>

definition demo_manifest :: "chapter_descriptor list" where
  "demo_manifest =
     [\<lparr>number = 1, title = ''A'', file_name = ''1.txt''\<rparr>,
      \<lparr>number = 2, title = ''B'', file_name = ''2.txt''\<rparr>]"

definition blank_page :: state where
  "blank_page =
     \<lparr>novelFolder = Some [], chapters = [], currentChapterIndex = 0,
      novelTitleEl = [], document_title = [], chapterContentEl = InnerHTML [],
      chapterContent_fontSize = [], chapterContent_lineHeight = [], chapterIndicatorEl = [],
      prevBtn_disabled = False, nextBtn_disabled = False,
      chapterModal_visible = False, settingsModal_visible = False, chapterListEl = [],
      fontSizeSlider = [], fontSizeValueEl = [], lineHeightSlider = [], lineHeightValueEl = [],
      data_theme = None, scroll = (0, 0), localStorage = Map.empty, requests = []\<rparr>"

text \<open>A server that has the manifest and the preferred file of every chapter.\<close>

definition demo_net :: network where
  "demo_net path =
     (if path = ''demo/manifest.json'' then Some (Response 200 None (Some demo_manifest))
      else if path = ''demo/llm_chapters/1.txt'' then Some (Response 200 (Some ''one'') None)
      else if path = ''demo/llm_chapters/2.txt'' then Some (Response 200 (Some ''two'') None)
      else Some (Response 404 None None))"

text \<open>The same server when it answers every chapter request with status 500.\<close>

definition broken_net :: network where
  "broken_net path =
     (if path = ''demo/manifest.json'' then Some (Response 200 None (Some demo_manifest))
      else Some (Response 500 None None))"

text \<open>A server that has only the raw file of each chapter.\<close>

definition raw_net :: network where
  "raw_net path =
     (if path = ''demo/manifest.json'' then Some (Response 200 None (Some demo_manifest))
      else if path = ''demo/raw_chapters/1.txt'' then Some (Response 200 (Some ''raw one'') None)
      else if path = ''demo/raw_chapters/2.txt'' then Some (Response 200 (Some ''raw two'') None)
      else Some (Response 404 None None))"

text \<open>A server that has the manifest and no chapter file at all.\<close>

definition missing_net :: network where
  "missing_net path =
     (if path = ''demo/manifest.json'' then Some (Response 200 None (Some demo_manifest))
      else Some (Response 404 None None))"

text \<open>A network on which every fetch rejects, and a server that answers 503 to everything.\<close>

definition offline_net :: network where
  "offline_net path = None"

definition down_net :: network where
  "down_net path = Some (Response 503 None None)"

text \<open>A page whose storage remembers index 5 for \<open>demo\<close>, from a longer manifest.\<close>

definition stale_page :: state where
  "stale_page = blank_page\<lparr>localStorage := [''lastChapter-demo'' \<mapsto> ''5'']\<rparr>"



text \<open>The page once it has loaded from \<open>demo_net\<close>: chapter 1 of 2 is displayed.\<close>

definition demo_loaded :: state where
  "demo_loaded = domContentLoaded demo_net (Some ''demo'') blank_page"

section \<open>The search of the specification\<close>



section \<open>The chapter loader, case by case\<close>

lemma fetch_chapter_rejected:
  "net llm = None \<Longrightarrow> fetch_chapter net llm raw s = (None, s\<lparr>requests := requests s @ [llm]\<rparr>)"
  by (simp add: fetch_chapter_def fetch_def)

lemma fetch_chapter_direct:
  "net llm = Some r \<Longrightarrow> status r \<noteq> 404 \<Longrightarrow>
   fetch_chapter net llm raw s =
     (if ok r then body_text r else None, s\<lparr>requests := requests s @ [llm]\<rparr>)"
  by (simp add: fetch_chapter_def fetch_def)

lemma fetch_chapter_fallback:
  "net llm = Some r \<Longrightarrow> status r = 404 \<Longrightarrow>
   fetch_chapter net llm raw s =
     (case net raw of None \<Rightarrow> None | Some r' \<Rightarrow> if ok r' then body_text r' else None,
      s\<lparr>requests := requests s @ [llm, raw]\<rparr>)"
  by (simp add: fetch_chapter_def fetch_def split: option.splits)

lemma fetch_chapter_frame:
  "\<exists>rs. snd (fetch_chapter net llm raw s) = s\<lparr>requests := rs\<rparr>"
proof (cases "net llm")
  case None
  then show ?thesis by (auto simp: fetch_chapter_rejected)
next
  case (Some r)
  then show ?thesis
    by (cases "status r = 404") (auto simp: fetch_chapter_direct fetch_chapter_fallback)
qed

lemma loadChapter_out:
  "index < 0 \<or> int (length (chapters s)) \<le> index \<Longrightarrow> loadChapter net index s = s"
  by (auto simp: loadChapter_def)

lemma loadChapter_in:
  assumes "0 \<le> index" "index < int (length (chapters s))"
  shows "loadChapter net index s =
     (let chapter = snd (chapters s ! nat index);
          res = fetch_chapter net (llmPath (novelFolder s) chapter) (rawPath (novelFolder s) chapter)
                  (s\<lparr>currentChapterIndex := index, chapterContentEl := InnerHTML (loading_text chapter)\<rparr>)
      in case fst res of
           Some text \<Rightarrow>
             (snd res)\<lparr>chapterContentEl := TextContent text, scroll := (0, 0),
                prevBtn_disabled := (index = 0),
                nextBtn_disabled := (index = int (length (chapters s)) - 1),
                chapterIndicatorEl := ''Chapter '' @ toString (index + 1) @ '' / '' @ toString (int (length (chapters s))),
                localStorage := (localStorage s)(lastChapterKey (novelFolder s) \<mapsto> toString index)\<rparr>
         | None \<Rightarrow> (snd res)\<lparr>chapterContentEl := InnerHTML failed_text\<rparr>)"
proof -
  let ?chapter = "snd (chapters s ! nat index)"
  let ?s2 = "s\<lparr>currentChapterIndex := index, chapterContentEl := InnerHTML (loading_text ?chapter)\<rparr>"
  obtain rs where rs: "snd (fetch_chapter net (llmPath (novelFolder s) ?chapter) (rawPath (novelFolder s) ?chapter) ?s2) = ?s2\<lparr>requests := rs\<rparr>"
    using fetch_chapter_frame by blast
  show ?thesis
    using assms rs
    by (cases "fetch_chapter net (llmPath (novelFolder s) ?chapter) (rawPath (novelFolder s) ?chapter) ?s2")
       (auto simp: loadChapter_def Let_def updateUI_def split: option.splits)
qed

lemma llm_raw_distinct: "llmPath folder chapter \<noteq> rawPath folder chapter"
  by (simp add: llmPath_def rawPath_def)

lemma loadChapter_failed_iff:
  assumes "0 \<le> index" "index < int (length (chapters s))"
  shows "chapterContentEl (loadChapter net index s) = InnerHTML failed_text \<longleftrightarrow>
         fst (fetch_chapter net (llmPath (novelFolder s) (snd (chapters s ! nat index)))
                (rawPath (novelFolder s) (snd (chapters s ! nat index)))
                (s\<lparr>currentChapterIndex := index,
                   chapterContentEl := InnerHTML (loading_text (snd (chapters s ! nat index)))\<rparr>)) = None"
proof -
  let ?chapter = "snd (chapters s ! nat index)"
  let ?s2 = "s\<lparr>currentChapterIndex := index, chapterContentEl := InnerHTML (loading_text ?chapter)\<rparr>"
  obtain rs where rs: "snd (fetch_chapter net (llmPath (novelFolder s) ?chapter) (rawPath (novelFolder s) ?chapter) ?s2) = ?s2\<lparr>requests := rs\<rparr>"
    using fetch_chapter_frame by blast
  show ?thesis
    using rs by (simp add: loadChapter_in [OF assms] Let_def split: option.splits)
qed

lemma loadChapter_requests:
  assumes "0 \<le> index" "index < int (length (chapters s))"
  shows "requests (loadChapter net index s) =
         requests (snd (fetch_chapter net (llmPath (novelFolder s) (snd (chapters s ! nat index)))
                (rawPath (novelFolder s) (snd (chapters s ! nat index)))
                (s\<lparr>currentChapterIndex := index,
                   chapterContentEl := InnerHTML (loading_text (snd (chapters s ! nat index)))\<rparr>)))"
  by (simp add: loadChapter_in [OF assms] Let_def split: option.splits)

text \<open>
  Claim C2. In a chapter load of an index in range, a preferred fetch (\<open>llm_chapters\<close>)
  that answers 404 is followed by exactly one fetch of the fallback path (\<open>raw_chapters\<close>,
  a different path) and by no other; a preferred fetch that answers any other status
  outside 200..299 is the only fetch of the load, which ends with the failure message;
  and after a 404 a fallback fetch that rejects or answers a status outside 200..299
  ends the load with the failure message as well.
\<close>

theorem loadChapter_fallback_policy:
  assumes "0 \<le> index" and "index < int (length (chapters s))"
  shows "let chapter = snd (chapters s ! nat index);
             llm = llmPath (novelFolder s) chapter;
             raw = rawPath (novelFolder s) chapter;
             s' = loadChapter net index s
         in llm \<noteq> raw
          \<and> (\<forall>r. net llm = Some r \<and> status r = 404 \<longrightarrow>
                 requests s' = requests s @ [llm, raw])
          \<and> (\<forall>r. net llm = Some r \<and> status r \<noteq> 404 \<and> \<not> ok r \<longrightarrow>
                 requests s' = requests s @ [llm] \<and> chapterContentEl s' = InnerHTML failed_text)
          \<and> (\<forall>r. net llm = Some r \<and> status r = 404 \<and>
                  (net raw = None \<or> (\<exists>r'. net raw = Some r' \<and> \<not> ok r')) \<longrightarrow>
                 chapterContentEl s' = InnerHTML failed_text)"
  unfolding Let_def
  by (auto simp: llm_raw_distinct loadChapter_failed_iff [OF assms] loadChapter_requests [OF assms]
        fetch_chapter_direct fetch_chapter_fallback)

theorem loadChapter_fallback_policy_witness:
  "(0::int) \<le> 1 \<and> 1 < int (length (chapters demo_loaded))
   \<and> raw_net ''demo/llm_chapters/2.txt'' = Some (Response 404 None None)
   \<and> requests (loadChapter raw_net 1 demo_loaded) =
       requests demo_loaded @ [''demo/llm_chapters/2.txt'', ''demo/raw_chapters/2.txt'']
   \<and> broken_net ''demo/llm_chapters/2.txt'' = Some (Response 500 None None)
   \<and> \<not> ok (Response 500 None None)
   \<and> requests (loadChapter broken_net 1 demo_loaded) = requests demo_loaded @ [''demo/llm_chapters/2.txt'']
   \<and> chapterContentEl (loadChapter broken_net 1 demo_loaded) = InnerHTML failed_text
   \<and> missing_net ''demo/llm_chapters/2.txt'' = Some (Response 404 None None)
   \<and> missing_net ''demo/raw_chapters/2.txt'' = Some (Response 404 None None)
   \<and> \<not> ok (Response 404 None None)
   \<and> chapterContentEl (loadChapter missing_net 1 demo_loaded) = InnerHTML failed_text"
proof -
  have h1: "(0::int) \<le> 1" by simp
  have h2: "(1::int) < int (length (chapters demo_loaded))" by code_simp
  have llm: "llmPath (novelFolder demo_loaded) (snd (chapters demo_loaded ! nat 1)) = ''demo/llm_chapters/2.txt''"
    by code_simp
  have raw: "rawPath (novelFolder demo_loaded) (snd (chapters demo_loaded ! nat 1)) = ''demo/raw_chapters/2.txt''"
    by code_simp
  have n1: "raw_net ''demo/llm_chapters/2.txt'' = Some (Response 404 None None)"
    by (simp add: raw_net_def)
  have n2: "broken_net ''demo/llm_chapters/2.txt'' = Some (Response 500 None None)"
    by (simp add: broken_net_def)
  have n3: "missing_net ''demo/llm_chapters/2.txt'' = Some (Response 404 None None)"
    by (simp add: missing_net_def)
  have n4: "missing_net ''demo/raw_chapters/2.txt'' = Some (Response 404 None None)"
    by (simp add: missing_net_def)
  have o5: "\<not> ok (Response 500 None None)" by (simp add: ok_def)
  have o4: "\<not> ok (Response 404 None None)" by (simp add: ok_def)
  note a = loadChapter_fallback_policy [OF h1 h2, of raw_net, unfolded Let_def llm raw]
  note b = loadChapter_fallback_policy [OF h1 h2, of broken_net, unfolded Let_def llm raw]
  note c = loadChapter_fallback_policy [OF h1 h2, of missing_net, unfolded Let_def llm raw]
  have A: "requests (loadChapter raw_net 1 demo_loaded) =
       requests demo_loaded @ [''demo/llm_chapters/2.txt'', ''demo/raw_chapters/2.txt'']"
    using a n1 by simp
  have B: "requests (loadChapter broken_net 1 demo_loaded) = requests demo_loaded @ [''demo/llm_chapters/2.txt'']
     \<and> chapterContentEl (loadChapter broken_net 1 demo_loaded) = InnerHTML failed_text"
    using b n2 o5 by simp
  have C: "chapterContentEl (loadChapter missing_net 1 demo_loaded) = InnerHTML failed_text"
    using c n3 n4 o4 by simp
  show ?thesis using h1 h2 n1 n2 n3 n4 o4 o5 A B C by blast
qed

text \<open>
  Claim C3. For every index below 0 or not below the length of the chapter list,
  \<open>loadChapter\<close> returns the state it was given: no path is fetched, and the
  content area, the current chapter index and the storage are what they were.
\<close>

theorem loadChapter_out_of_range_noop:
  assumes "index < 0 \<or> int (length (chapters s)) \<le> index"
  shows "loadChapter net index s = s
       \<and> requests (loadChapter net index s) = requests s
       \<and> chapterContentEl (loadChapter net index s) = chapterContentEl s
       \<and> currentChapterIndex (loadChapter net index s) = currentChapterIndex s
       \<and> localStorage (loadChapter net index s) = localStorage s"
  using assms by (simp add: loadChapter_out)

theorem loadChapter_out_of_range_noop_witness:
  "((2::int) < 0 \<or> int (length (chapters demo_loaded)) \<le> 2)
   \<and> loadChapter demo_net 2 demo_loaded = demo_loaded
   \<and> ((- 1::int) < 0 \<or> int (length (chapters demo_loaded)) \<le> - 1)
   \<and> loadChapter demo_net (- 1) demo_loaded = demo_loaded"
proof -
  have h: "(2::int) < 0 \<or> int (length (chapters demo_loaded)) \<le> 2" by code_simp
  have g: "(- 1::int) < 0 \<or> int (length (chapters demo_loaded)) \<le> - 1" by simp
  show ?thesis
    using h g loadChapter_out_of_range_noop [OF h, of demo_net]
      loadChapter_out_of_range_noop [OF g, of demo_net] by blast
qed



text \<open>
  A load that fails has already assigned the index (line 29 comes before the fetch), and
  nothing else that follows the index: the two buttons, the indicator and the storage
  stay at the chapter that is still displayed.
\<close>

lemma loadChapter_failed_index:
  assumes "0 \<le> index" and "index < int (length (chapters s))"
    and "chapterContentEl (loadChapter net index s) = InnerHTML failed_text"
  shows "currentChapterIndex (loadChapter net index s) = index
       \<and> localStorage (loadChapter net index s) = localStorage s
       \<and> prevBtn_disabled (loadChapter net index s) = prevBtn_disabled s
       \<and> nextBtn_disabled (loadChapter net index s) = nextBtn_disabled s
       \<and> chapterIndicatorEl (loadChapter net index s) = chapterIndicatorEl s"
proof -
  let ?chapter = "snd (chapters s ! nat index)"
  let ?s2 = "s\<lparr>currentChapterIndex := index, chapterContentEl := InnerHTML (loading_text ?chapter)\<rparr>"
  obtain rs where rs: "snd (fetch_chapter net (llmPath (novelFolder s) ?chapter) (rawPath (novelFolder s) ?chapter) ?s2) = ?s2\<lparr>requests := rs\<rparr>"
    using fetch_chapter_frame by blast
  show ?thesis
    using rs assms(3)
    by (simp add: loadChapter_in [OF assms(1,2)] Let_def split: option.splits)
qed

text \<open>
  Claim C1, on the page that displays chapter 1 of 2 (index 0) when the server answers
  the request for chapter 2 with status 500: the content area shows the fixed retry
  message, the indicator and the stored index still say index 0, and the current
  chapter index has become 1.
\<close>

theorem loadChapter_failure_moves_index:
  "currentChapterIndex demo_loaded = 0
   \<and> chapterIndicatorEl demo_loaded = ''Chapter 1 / 2''
   \<and> localStorage demo_loaded ''lastChapter-demo'' = Some ''0''
   \<and> chapterContentEl (loadChapter broken_net 1 demo_loaded) = InnerHTML failed_text
   \<and> currentChapterIndex (loadChapter broken_net 1 demo_loaded) = 1
   \<and> chapterIndicatorEl (loadChapter broken_net 1 demo_loaded) = ''Chapter 1 / 2''
   \<and> localStorage (loadChapter broken_net 1 demo_loaded) ''lastChapter-demo'' = Some ''0''"
  by code_simp

section \<open>The navigation controls\<close>

text \<open>
  \<open>updateUI\<close> disables the previous button exactly at index 0 and the next button
  exactly at the last index, and a load that displays its chapter ends with it.
\<close>

lemma updateUI_controls:
  "prevBtn_disabled (updateUI s) = (currentChapterIndex s = 0)
   \<and> nextBtn_disabled (updateUI s) = (currentChapterIndex s = int (length (chapters s)) - 1)
   \<and> currentChapterIndex (updateUI s) = currentChapterIndex s
   \<and> chapters (updateUI s) = chapters s"
  by (simp add: updateUI_def)

lemma loadChapter_success_controls:
  assumes "0 \<le> index" and "index < int (length (chapters s))"
    and "chapterContentEl (loadChapter net index s) = TextContent text"
  shows "prevBtn_disabled (loadChapter net index s) = (currentChapterIndex (loadChapter net index s) = 0)
       \<and> nextBtn_disabled (loadChapter net index s) =
           (currentChapterIndex (loadChapter net index s) = int (length (chapters (loadChapter net index s))) - 1)"
proof -
  let ?chapter = "snd (chapters s ! nat index)"
  let ?s2 = "s\<lparr>currentChapterIndex := index, chapterContentEl := InnerHTML (loading_text ?chapter)\<rparr>"
  obtain rs where rs: "snd (fetch_chapter net (llmPath (novelFolder s) ?chapter) (rawPath (novelFolder s) ?chapter) ?s2) = ?s2\<lparr>requests := rs\<rparr>"
    using fetch_chapter_frame by blast
  show ?thesis
    using rs assms(3)
    by (simp add: loadChapter_in [OF assms(1,2)] Let_def split: option.splits)
qed

text \<open>
  Claim C7, on the same page and server as for C1: a click on the next button whose
  load fails leaves a list of length 2 with current index 1, the last one, while the
  next button is enabled and the previous button is disabled; a click on the previous
  button then does nothing.
\<close>

theorem controls_stale_after_failed_load:
  "length (chapters demo_loaded) = 2
   \<and> currentChapterIndex demo_loaded = 0
   \<and> prevBtn_disabled demo_loaded \<and> \<not> nextBtn_disabled demo_loaded
   \<and> handle broken_net NextClick demo_loaded = Some (nextBtn_click broken_net demo_loaded)
   \<and> length (chapters (nextBtn_click broken_net demo_loaded)) = 2
   \<and> currentChapterIndex (nextBtn_click broken_net demo_loaded) = 1
   \<and> prevBtn_disabled (nextBtn_click broken_net demo_loaded)
   \<and> \<not> nextBtn_disabled (nextBtn_click broken_net demo_loaded)
   \<and> prevBtn_click demo_net (nextBtn_click broken_net demo_loaded) = nextBtn_click broken_net demo_loaded"
proof -
  have a: "length (chapters demo_loaded) = 2
   \<and> currentChapterIndex demo_loaded = 0
   \<and> prevBtn_disabled demo_loaded \<and> \<not> nextBtn_disabled demo_loaded
   \<and> length (chapters (nextBtn_click broken_net demo_loaded)) = 2
   \<and> currentChapterIndex (nextBtn_click broken_net demo_loaded) = 1
   \<and> prevBtn_disabled (nextBtn_click broken_net demo_loaded)
   \<and> \<not> nextBtn_disabled (nextBtn_click broken_net demo_loaded)"
    by code_simp
  then show ?thesis by (simp add: prevBtn_click_def)
qed

section \<open>Settings and initialization\<close>

lemma loadSettings_eq:
  "loadSettings s =
     s\<lparr>fontSizeSlider := or_default (localStorage s ''fontSize'') ''18'',
       lineHeightSlider := or_default (localStorage s ''lineHeight'') ''1.8'',
       chapterContent_fontSize := or_default (localStorage s ''fontSize'') ''18'' @ ''px'',
       fontSizeValueEl := or_default (localStorage s ''fontSize'') ''18'' @ ''px'',
       chapterContent_lineHeight := or_default (localStorage s ''lineHeight'') ''1.8'',
       lineHeightValueEl := or_default (localStorage s ''lineHeight'') ''1.8'',
       data_theme := Some (or_default (localStorage s ''theme'') ''light''),
       localStorage := (localStorage s)
         (''fontSize'' \<mapsto> or_default (localStorage s ''fontSize'') ''18'',
          ''lineHeight'' \<mapsto> or_default (localStorage s ''lineHeight'') ''1.8'',
          ''theme'' \<mapsto> or_default (localStorage s ''theme'') ''light'')\<rparr>"
  by (simp add: loadSettings_def applySetting_def Let_def)

lemma lastChapterKey_not_setting:
  "lastChapterKey folder \<noteq> ''fontSize''"
  "lastChapterKey folder \<noteq> ''lineHeight''"
  "lastChapterKey folder \<noteq> ''theme''"
  by (simp_all add: lastChapterKey_def)

lemma length_json_array: "length (json_array ds) = length ds"
  by (simp add: json_array_def)

lemma init_manifest_failed:
  assumes "novel = Some folder" and "folder \<noteq> []"
    and "net (manifestPath novel) = None \<or> (\<exists>r. net (manifestPath novel) = Some r \<and> (\<not> ok r \<or> body_json r = None))"
  shows "init net novel s =
           s\<lparr>novelFolder := novel, novelTitleEl := ''Could not load novel.'',
             document_title := readableTitle folder,
             requests := requests s @ [manifestPath novel]\<rparr>"
  using assms by (auto simp: init_def Let_def fetch_def init_catch_def toString_nullable_def)

lemma init_manifest_loaded:
  assumes "novel = Some folder" and "folder \<noteq> []"
    and "net (manifestPath novel) = Some r" and "ok r" and "body_json r = Some ds"
  shows "init net novel s =
           (let s5 = s\<lparr>novelFolder := novel,
                        novelTitleEl := readableTitle folder,
                        document_title := readableTitle folder,
                        requests := requests s @ [manifestPath novel],
                        chapters := json_array ds,
                        chapterListEl := chapterListEl (populateChapterList (json_array ds) (s\<lparr>chapters := json_array ds\<rparr>))\<rparr>
            in loadChapter net (lastChapterIndex s5) s5)"
  using assms by (simp add: init_def Let_def fetch_def populateChapterList_def toString_nullable_def)

lemma loadChapter_frame:
  "novelFolder (loadChapter net index s) = novelFolder s
   \<and> chapters (loadChapter net index s) = chapters s
   \<and> novelTitleEl (loadChapter net index s) = novelTitleEl s
   \<and> chapterListEl (loadChapter net index s) = chapterListEl s"
proof (cases "0 \<le> index \<and> index < int (length (chapters s))")
  case False
  then have "index < 0 \<or> int (length (chapters s)) \<le> index" by auto
  then show ?thesis by (simp add: loadChapter_out)
next
  case True
  let ?chapter = "snd (chapters s ! nat index)"
  let ?s2 = "s\<lparr>currentChapterIndex := index, chapterContentEl := InnerHTML (loading_text ?chapter)\<rparr>"
  obtain rs where rs: "snd (fetch_chapter net (llmPath (novelFolder s) ?chapter) (rawPath (novelFolder s) ?chapter) ?s2) = ?s2\<lparr>requests := rs\<rparr>"
    using fetch_chapter_frame by blast
  show ?thesis
    using rs True by (simp add: loadChapter_in Let_def split: option.splits)
qed

lemma loadChapter_storage:
  "localStorage (loadChapter net index s) = localStorage s
   \<or> (0 \<le> index \<and> index < int (length (chapters s))
      \<and> (\<exists>t. chapterContentEl (loadChapter net index s) = TextContent t)
      \<and> localStorage (loadChapter net index s) =
          (localStorage s)(lastChapterKey (novelFolder s) \<mapsto> toString index))"
proof (cases "0 \<le> index \<and> index < int (length (chapters s))")
  case False
  then have "index < 0 \<or> int (length (chapters s)) \<le> index" by auto
  then show ?thesis by (simp add: loadChapter_out)
next
  case True
  let ?chapter = "snd (chapters s ! nat index)"
  let ?s2 = "s\<lparr>currentChapterIndex := index, chapterContentEl := InnerHTML (loading_text ?chapter)\<rparr>"
  obtain rs where rs: "snd (fetch_chapter net (llmPath (novelFolder s) ?chapter) (rawPath (novelFolder s) ?chapter) ?s2) = ?s2\<lparr>requests := rs\<rparr>"
    using fetch_chapter_frame by blast
  show ?thesis
    using rs True by (simp add: loadChapter_in Let_def split: option.splits)
qed

text \<open>
  Claim C8. When the novel parameter is present and the fetch of the manifest rejects or
  answers a status outside 200..299, the page load ends with the fixed message
  \<open>Could not load novel.\<close> in the title area, with an empty chapter list, with the
  manifest path as the only path fetched (once), and with the content area, the current
  index and the stored last chapter as they were.
\<close>

theorem manifest_failure_stops_init:
  assumes "novel = Some folder" and "folder \<noteq> []"
    and "net (manifestPath novel) = None \<or> (\<exists>r. net (manifestPath novel) = Some r \<and> \<not> ok r)"
  shows "novelTitleEl (domContentLoaded net novel page) = ''Could not load novel.''
       \<and> chapters (domContentLoaded net novel page) = []
       \<and> requests (domContentLoaded net novel page) = requests page @ [manifestPath novel]
       \<and> chapterContentEl (domContentLoaded net novel page) = chapterContentEl page
       \<and> currentChapterIndex (domContentLoaded net novel page) = 0
       \<and> localStorage (domContentLoaded net novel page) (lastChapterKey novel) =
           localStorage page (lastChapterKey novel)"
proof -
  have "net (manifestPath novel) = None \<or>
        (\<exists>r. net (manifestPath novel) = Some r \<and> (\<not> ok r \<or> body_json r = None))"
    using assms(3) by blast
  then have "init net novel (loadSettings (boot page)) =
           (loadSettings (boot page))\<lparr>novelFolder := novel, novelTitleEl := ''Could not load novel.'',
             document_title := readableTitle folder,
             requests := requests (loadSettings (boot page)) @ [manifestPath novel]\<rparr>"
    using assms(1,2) by (rule init_manifest_failed [rotated 2])
  then show ?thesis
    by (simp add: domContentLoaded_def loadSettings_eq boot_def lastChapterKey_not_setting)
qed

theorem manifest_failure_stops_init_witness:
  "Some ''demo'' = Some ''demo'' \<and> ''demo'' \<noteq> []
   \<and> offline_net (manifestPath (Some ''demo'')) = None
   \<and> novelTitleEl (domContentLoaded offline_net (Some ''demo'') stale_page) = ''Could not load novel.''
   \<and> chapters (domContentLoaded offline_net (Some ''demo'') stale_page) = []
   \<and> requests (domContentLoaded offline_net (Some ''demo'') stale_page) = requests stale_page @ [manifestPath (Some ''demo'')]
   \<and> down_net (manifestPath (Some ''demo'')) = Some (Response 503 None None)
   \<and> \<not> ok (Response 503 None None)
   \<and> novelTitleEl (domContentLoaded down_net (Some ''demo'') stale_page) = ''Could not load novel.''
   \<and> chapters (domContentLoaded down_net (Some ''demo'') stale_page) = []
   \<and> requests (domContentLoaded down_net (Some ''demo'') stale_page) = requests stale_page @ [manifestPath (Some ''demo'')]
   \<and> chapterContentEl (domContentLoaded down_net (Some ''demo'') stale_page) = chapterContentEl stale_page"
proof -
  have h1: "Some ''demo'' = Some ''demo''" by simp
  have h2: "''demo'' \<noteq> []" by simp
  have o: "offline_net (manifestPath (Some ''demo'')) = None" by (simp add: offline_net_def)
  have d: "down_net (manifestPath (Some ''demo'')) = Some (Response 503 None None)"
    by (simp add: down_net_def)
  have k: "\<not> ok (Response 503 None None)" by (simp add: ok_def)
  have h3: "offline_net (manifestPath (Some ''demo'')) = None \<or>
            (\<exists>r. offline_net (manifestPath (Some ''demo'')) = Some r \<and> \<not> ok r)"
    using o by simp
  have h4: "down_net (manifestPath (Some ''demo'')) = None \<or>
            (\<exists>r. down_net (manifestPath (Some ''demo'')) = Some r \<and> \<not> ok r)"
    using d k by simp
  show ?thesis
    using h1 h2 o d k manifest_failure_stops_init
        [where novel = "Some ''demo''" and net = offline_net and page = stale_page, OF h1 h2 h3]
      manifest_failure_stops_init
        [where novel = "Some ''demo''" and net = down_net and page = stale_page, OF h1 h2 h4]
    by blast
qed

lemma lastChapterIndex_loadSettings:
  "localStorage (loadSettings s) (lastChapterKey folder) = localStorage s (lastChapterKey folder)"
  by (simp add: loadSettings_eq lastChapterKey_not_setting)

text \<open>
  Claim C10. When the manifest loads and the stored \<open>lastChapter-{novel}\<close> parses to
  an index that is not below the length of that manifest, the page load fetches the
  manifest and nothing else, shows no error (the title area holds the readable title),
  and leaves the content area, the two buttons, the indicator and the stored value as
  the page had them; the current index is 0.
\<close>

theorem stale_last_chapter_loads_nothing:
  assumes "novel = Some folder" and "folder \<noteq> []"
    and "net (manifestPath novel) = Some r" and "ok r" and "body_json r = Some ds"
    and "parseInt (toString_nullable (localStorage page (lastChapterKey novel))) = Some n"
    and "int (length ds) \<le> n"
  shows "requests (domContentLoaded net novel page) = requests page @ [manifestPath novel]
       \<and> chapterContentEl (domContentLoaded net novel page) = chapterContentEl page
       \<and> novelTitleEl (domContentLoaded net novel page) = readableTitle folder
       \<and> chapters (domContentLoaded net novel page) = json_array ds
       \<and> currentChapterIndex (domContentLoaded net novel page) = 0
       \<and> localStorage (domContentLoaded net novel page) (lastChapterKey novel) =
           localStorage page (lastChapterKey novel)
       \<and> prevBtn_disabled (domContentLoaded net novel page) = prevBtn_disabled page
       \<and> nextBtn_disabled (domContentLoaded net novel page) = nextBtn_disabled page
       \<and> chapterIndicatorEl (domContentLoaded net novel page) = chapterIndicatorEl page"
proof -
  let ?s = "loadSettings (boot page)"
  let ?s5 = "?s\<lparr>novelFolder := novel,
                novelTitleEl := readableTitle folder,
                document_title := readableTitle folder,
                requests := requests ?s @ [manifestPath novel],
                chapters := json_array ds,
                chapterListEl := chapterListEl (populateChapterList (json_array ds) (?s\<lparr>chapters := json_array ds\<rparr>))\<rparr>"
  have init: "init net novel ?s = loadChapter net (lastChapterIndex ?s5) ?s5"
    using init_manifest_loaded [where net = net and novel = novel and s = ?s, OF assms(1-5)]
    by (simp add: Let_def)
  have "localStorage ?s5 (lastChapterKey novel) = localStorage page (lastChapterKey novel)"
    by (simp add: lastChapterIndex_loadSettings boot_def)
  then have idx: "lastChapterIndex ?s5 = n"
    using assms(6) by (simp add: lastChapterIndex_def or_zero_def)
  have "lastChapterIndex ?s5 < 0 \<or> int (length (chapters ?s5)) \<le> lastChapterIndex ?s5"
    using assms(7) idx by (simp add: length_json_array)
  then have "loadChapter net (lastChapterIndex ?s5) ?s5 = ?s5"
    by (rule loadChapter_out)
  with init have "domContentLoaded net novel page = ?s5"
    by (simp add: domContentLoaded_def)
  then show ?thesis
    by (simp add: loadSettings_eq boot_def lastChapterKey_not_setting)
qed

theorem stale_last_chapter_loads_nothing_witness:
  "Some ''demo'' = Some ''demo'' \<and> ''demo'' \<noteq> []
   \<and> demo_net (manifestPath (Some ''demo'')) = Some (Response 200 None (Some demo_manifest))
   \<and> ok (Response 200 None (Some demo_manifest))
   \<and> body_json (Response 200 None (Some demo_manifest)) = Some demo_manifest
   \<and> parseInt (toString_nullable (localStorage stale_page (lastChapterKey (Some ''demo'')))) = Some 5
   \<and> int (length demo_manifest) \<le> 5
   \<and> requests (domContentLoaded demo_net (Some ''demo'') stale_page) = requests stale_page @ [manifestPath (Some ''demo'')]
   \<and> chapterContentEl (domContentLoaded demo_net (Some ''demo'') stale_page) = chapterContentEl stale_page
   \<and> novelTitleEl (domContentLoaded demo_net (Some ''demo'') stale_page) = readableTitle ''demo''
   \<and> chapters (domContentLoaded demo_net (Some ''demo'') stale_page) = json_array demo_manifest
   \<and> currentChapterIndex (domContentLoaded demo_net (Some ''demo'') stale_page) = 0"
proof -
  have h1: "Some ''demo'' = Some ''demo''" by simp
  have h2: "''demo'' \<noteq> []" by simp
  have h3: "demo_net (manifestPath (Some ''demo'')) = Some (Response 200 None (Some demo_manifest))"
    by (simp add: demo_net_def manifestPath_def toString_nullable_def)
  have h4: "ok (Response 200 None (Some demo_manifest))" by (simp add: ok_def)
  have h5: "body_json (Response 200 None (Some demo_manifest)) = Some demo_manifest" by simp
  have h6: "parseInt (toString_nullable (localStorage stale_page (lastChapterKey (Some ''demo'')))) = Some 5"
    by code_simp
  have h7: "int (length demo_manifest) \<le> 5" by (simp add: demo_manifest_def)
  show ?thesis
    using h1 h2 h3 h4 h5 h6 h7 stale_last_chapter_loads_nothing
        [where novel = "Some ''demo''" and net = demo_net and page = stale_page,
         OF h1 h2 h3 h4 h5 h6 h7]
    by blast
qed

section \<open>What is written under the last-chapter key\<close>

lemma applySetting_storage:
  "key \<noteq> k \<Longrightarrow> localStorage (applySetting key v s) k = localStorage s k"
  by (auto simp: applySetting_def Let_def)

lemma applySetting_frame:
  "novelFolder (applySetting key v s) = novelFolder s \<and> chapters (applySetting key v s) = chapters s"
  by (simp add: applySetting_def Let_def)

lemma entry_step_loadChapter:
  "localStorage (loadChapter net index s) (lastChapterKey (novelFolder s)) =
     localStorage s (lastChapterKey (novelFolder s))
   \<or> (\<exists>i. 0 \<le> i \<and> i < int (length (chapters (loadChapter net index s)))
        \<and> localStorage (loadChapter net index s) (lastChapterKey (novelFolder s)) = Some (toString i))"
proof -
  from loadChapter_storage [of net index s]
  show ?thesis
  proof
    assume "localStorage (loadChapter net index s) = localStorage s"
    then show ?thesis by simp
  next
    assume a: "0 \<le> index \<and> index < int (length (chapters s))
      \<and> (\<exists>t. chapterContentEl (loadChapter net index s) = TextContent t)
      \<and> localStorage (loadChapter net index s) =
          (localStorage s)(lastChapterKey (novelFolder s) \<mapsto> toString index)"
    have "chapters (loadChapter net index s) = chapters s"
      using loadChapter_frame [of net index s] by simp
    with a have "0 \<le> index \<and> index < int (length (chapters (loadChapter net index s)))
        \<and> localStorage (loadChapter net index s) (lastChapterKey (novelFolder s)) = Some (toString index)"
      by simp
    then show ?thesis by blast
  qed
qed

lemma entry_step_cases:
  assumes "s' = s \<or> s' = loadChapter net index s \<or> s' = (loadChapter net index s)\<lparr>chapterModal_visible := False\<rparr>"
  shows "localStorage s' (lastChapterKey (novelFolder s)) = localStorage s (lastChapterKey (novelFolder s))
       \<or> (\<exists>i. 0 \<le> i \<and> i < int (length (chapters s'))
            \<and> localStorage s' (lastChapterKey (novelFolder s)) = Some (toString i))"
  using assms entry_step_loadChapter [of net index s]
  by (elim disjE) simp_all

lemma handle_novelFolder:
  "handle net e s = Some s' \<Longrightarrow> novelFolder s' = novelFolder s"
  by (cases "(net, e, s)" rule: handle.cases)
     (auto simp: prevBtn_click_def nextBtn_click_def keydown_def loadChapter_frame
        chapterList_click_def chapterSearch_input_def populateChapterList_def Let_def
        themeToggle_click_def applySetting_frame split: if_splits option.splits)

lemma handle_entry:
  assumes "handle net e s = Some s'"
  shows "localStorage s' (lastChapterKey (novelFolder s)) = localStorage s (lastChapterKey (novelFolder s))
       \<or> (\<exists>i. 0 \<le> i \<and> i < int (length (chapters s'))
            \<and> localStorage s' (lastChapterKey (novelFolder s)) = Some (toString i))"
proof (cases e)
  case PrevClick
  then have "s' = s \<or> s' = loadChapter net (currentChapterIndex s - 1) s"
    using assms by (auto simp: prevBtn_click_def)
  then show ?thesis by (intro entry_step_cases [of s' s net "currentChapterIndex s - 1"]) blast
next
  case NextClick
  then have "s' = s \<or> s' = loadChapter net (currentChapterIndex s + 1) s"
    using assms by (auto simp: nextBtn_click_def)
  then show ?thesis by (intro entry_step_cases [of s' s net "currentChapterIndex s + 1"]) blast
next
  case (KeyDown key)
  then have s': "s' = keydown net key s" using assms by simp
  show ?thesis
  proof (cases "key = ''ArrowLeft''")
    case True
    then have "s' = s \<or> s' = loadChapter net (currentChapterIndex s - 1) s"
      using s' by (auto simp: keydown_def prevBtn_click_def Let_def)
    then show ?thesis by (intro entry_step_cases [of s' s net "currentChapterIndex s - 1"]) blast
  next
    case False
    then have "s' = s \<or> s' = loadChapter net (currentChapterIndex s + 1) s"
      using s' by (auto simp: keydown_def nextBtn_click_def Let_def)
    then show ?thesis by (intro entry_step_cases [of s' s net "currentChapterIndex s + 1"]) blast
  qed
next
  case (ChapterListClick n)
  show ?thesis
  proof (cases "n < length (chapterListEl s)")
    case False
    then show ?thesis using assms ChapterListClick by simp
  next
    case True
    then obtain index where "s' = (loadChapter net index s)\<lparr>chapterModal_visible := False\<rparr>"
      using assms ChapterListClick by (auto simp: chapterList_click_def split: option.splits)
    then show ?thesis by (intro entry_step_cases [of s' s net index]) blast
  qed
next
  case (CloseClick m)
  then show ?thesis using assms by (cases m) auto
next
  case (ChapterSearchInput v)
  then show ?thesis
    using assms by (auto simp: chapterSearch_input_def populateChapterList_def Let_def)
next
  case (FontSizeInput v)
  then show ?thesis
    using assms by (auto simp: applySetting_storage lastChapterKey_not_setting [symmetric])
next
  case (LineHeightInput v)
  then show ?thesis
    using assms by (auto simp: applySetting_storage lastChapterKey_not_setting [symmetric])
next
  case ThemeToggleClick
  then show ?thesis
    using assms by (auto simp: themeToggle_click_def Let_def applySetting_storage lastChapterKey_not_setting [symmetric])
qed (use assms in auto)

lemma init_entry:
  "localStorage (init net novel s) (lastChapterKey novel) = localStorage s (lastChapterKey novel)
   \<or> (\<exists>i. 0 \<le> i \<and> i < int (length (chapters (init net novel s)))
        \<and> localStorage (init net novel s) (lastChapterKey novel) = Some (toString i))"
proof (cases "novel = None \<or> novel = Some []")
  case True
  then show ?thesis by (auto simp: init_def Let_def)
next
  case False
  then obtain folder where f: "novel = Some folder" "folder \<noteq> []" by auto
  show ?thesis
  proof (cases "\<exists>r ds. net (manifestPath novel) = Some r \<and> ok r \<and> body_json r = Some ds")
    case True
    then obtain r ds where r: "net (manifestPath novel) = Some r" "ok r" "body_json r = Some ds"
      by blast
    let ?s5 = "s\<lparr>novelFolder := novel,
                novelTitleEl := readableTitle folder,
                document_title := readableTitle folder,
                requests := requests s @ [manifestPath novel],
                chapters := json_array ds,
                chapterListEl := chapterListEl (populateChapterList (json_array ds) (s\<lparr>chapters := json_array ds\<rparr>))\<rparr>"
    have i: "init net novel s = loadChapter net (lastChapterIndex ?s5) ?s5"
      using init_manifest_loaded [where net = net and novel = novel and s = s, OF f r]
      by (simp add: Let_def)
    show ?thesis
      using entry_step_loadChapter [of net "lastChapterIndex ?s5" ?s5]
      unfolding i by simp
  next
    case False
    then have "net (manifestPath novel) = None \<or>
        (\<exists>r. net (manifestPath novel) = Some r \<and> (\<not> ok r \<or> body_json r = None))"
      by (cases "net (manifestPath novel)") auto
    from init_manifest_failed [where net = net and novel = novel and s = s, OF f this]
    show ?thesis by simp
  qed
qed

lemma init_novelFolder: "novelFolder (init net novel s) = novel"
  by (auto simp: init_def Let_def fetch_def init_catch_def populateChapterList_def loadChapter_frame
      split: option.splits)

lemma handle_chapters:
  "handle net e s = Some s' \<Longrightarrow> chapters s' = chapters s"
  by (cases "(net, e, s)" rule: handle.cases)
     (auto simp: prevBtn_click_def nextBtn_click_def keydown_def loadChapter_frame
        chapterList_click_def chapterSearch_input_def populateChapterList_def Let_def
        themeToggle_click_def applySetting_frame split: if_splits option.splits)

lemma run_entry:
  assumes "run es s = Some s'"
    and "localStorage s (lastChapterKey (novelFolder s)) = v0
         \<or> (\<exists>i. 0 \<le> i \<and> i < int (length (chapters s))
              \<and> localStorage s (lastChapterKey (novelFolder s)) = Some (toString i))"
  shows "novelFolder s' = novelFolder s \<and> chapters s' = chapters s
       \<and> (localStorage s' (lastChapterKey (novelFolder s)) = v0
          \<or> (\<exists>i. 0 \<le> i \<and> i < int (length (chapters s'))
               \<and> localStorage s' (lastChapterKey (novelFolder s)) = Some (toString i)))"
  using assms
proof (induction es arbitrary: s)
  case Nil
  then show ?case by simp
next
  case (Cons a es)
  obtain net e where a: "a = (net, e)" by (cases a)
  from Cons.prems(1) a obtain s1 where h: "handle net e s = Some s1" and r: "run es s1 = Some s'"
    by (auto split: option.splits)
  have nf: "novelFolder s1 = novelFolder s" and ch: "chapters s1 = chapters s"
    using h handle_novelFolder handle_chapters by blast+
  have "localStorage s1 (lastChapterKey (novelFolder s1)) = v0
         \<or> (\<exists>i. 0 \<le> i \<and> i < int (length (chapters s1))
              \<and> localStorage s1 (lastChapterKey (novelFolder s1)) = Some (toString i))"
    using handle_entry [OF h] Cons.prems(2) nf ch by auto
  from Cons.IH [OF r this] nf ch show ?case by auto
qed

text \<open>
  Claim C9. The entry \<open>lastChapter-{novelFolder}\<close> changes in a chapter load only when
  the load displays its chapter, and then to the index of that load, which passed the
  range test; a load that is out of range or that fails leaves the whole storage as it
  was. Over a whole session (the page load, then any events), the entry is either what
  the page had before the script ran or an index in \<open>[0, chapters.length - 1]\<close> of the
  manifest that is loaded.
\<close>

theorem lastChapter_entry_invariant:
  "(localStorage (loadChapter net index s) (lastChapterKey (novelFolder s)) =
      localStorage s (lastChapterKey (novelFolder s))
    \<or> (0 \<le> index \<and> index < int (length (chapters (loadChapter net index s)))
       \<and> (\<exists>t. chapterContentEl (loadChapter net index s) = TextContent t)
       \<and> localStorage (loadChapter net index s) (lastChapterKey (novelFolder s)) = Some (toString index)))
   \<and> (index < 0 \<or> int (length (chapters s)) \<le> index
        \<or> chapterContentEl (loadChapter net index s) = InnerHTML failed_text
       \<longrightarrow> localStorage (loadChapter net index s) = localStorage s)
   \<and> (\<forall>s'. run es (domContentLoaded net0 novel page) = Some s' \<longrightarrow>
         novelFolder s' = novel
         \<and> (localStorage s' (lastChapterKey novel) = localStorage page (lastChapterKey novel)
            \<or> (\<exists>i. 0 \<le> i \<and> i < int (length (chapters s'))
                 \<and> localStorage s' (lastChapterKey novel) = Some (toString i))))"
proof -
  have A: "localStorage (loadChapter net index s) (lastChapterKey (novelFolder s)) =
      localStorage s (lastChapterKey (novelFolder s))
    \<or> (0 \<le> index \<and> index < int (length (chapters (loadChapter net index s)))
       \<and> (\<exists>t. chapterContentEl (loadChapter net index s) = TextContent t)
       \<and> localStorage (loadChapter net index s) (lastChapterKey (novelFolder s)) = Some (toString index))"
    using loadChapter_storage [of net index s] loadChapter_frame [of net index s] by auto
  have B: "localStorage (loadChapter net index s) = localStorage s"
    if a: "index < 0 \<or> int (length (chapters s)) \<le> index
        \<or> chapterContentEl (loadChapter net index s) = InnerHTML failed_text"
  proof (cases "index < 0 \<or> int (length (chapters s)) \<le> index")
    case True
    then show ?thesis by (simp add: loadChapter_out)
  next
    case False
    then have r: "0 \<le> index" "index < int (length (chapters s))" by auto
    with a have "chapterContentEl (loadChapter net index s) = InnerHTML failed_text" by auto
    from loadChapter_failed_index [OF r this] show ?thesis by simp
  qed
  have C: "novelFolder s' = novel
         \<and> (localStorage s' (lastChapterKey novel) = localStorage page (lastChapterKey novel)
            \<or> (\<exists>i. 0 \<le> i \<and> i < int (length (chapters s'))
                 \<and> localStorage s' (lastChapterKey novel) = Some (toString i)))"
    if r: "run es (domContentLoaded net0 novel page) = Some s'" for s'
  proof -
  let ?s0 = "domContentLoaded net0 novel page"
  have nf: "novelFolder ?s0 = novel"
    by (simp add: domContentLoaded_def init_novelFolder)
  have "localStorage (loadSettings (boot page)) (lastChapterKey novel) = localStorage page (lastChapterKey novel)"
    by (simp add: lastChapterIndex_loadSettings boot_def)
  with init_entry [of net0 novel "loadSettings (boot page)"]
  have "localStorage ?s0 (lastChapterKey (novelFolder ?s0)) = localStorage page (lastChapterKey novel)
         \<or> (\<exists>i. 0 \<le> i \<and> i < int (length (chapters ?s0))
              \<and> localStorage ?s0 (lastChapterKey (novelFolder ?s0)) = Some (toString i))"
    unfolding nf by (simp add: domContentLoaded_def)
  from run_entry [OF r this] nf
  show ?thesis by auto
  qed
  show ?thesis using A B C by blast
qed

theorem lastChapter_entry_invariant_witness:
  "chapterContentEl (loadChapter broken_net 1 demo_loaded) = InnerHTML failed_text
   \<and> localStorage (loadChapter broken_net 1 demo_loaded) = localStorage demo_loaded
   \<and> run [(demo_net, NextClick)] (domContentLoaded demo_net (Some ''demo'') blank_page)
      = Some (nextBtn_click demo_net demo_loaded)
   \<and> localStorage blank_page (lastChapterKey (Some ''demo'')) = None
   \<and> localStorage (nextBtn_click demo_net demo_loaded) (lastChapterKey (Some ''demo'')) = Some (toString 1)
   \<and> novelFolder (nextBtn_click demo_net demo_loaded) = Some ''demo''
   \<and> (localStorage (nextBtn_click demo_net demo_loaded) (lastChapterKey (Some ''demo''))
        = localStorage blank_page (lastChapterKey (Some ''demo''))
       \<or> (\<exists>i. 0 \<le> i
            \<and> i < int (length (chapters (nextBtn_click demo_net demo_loaded)))
            \<and> localStorage (nextBtn_click demo_net demo_loaded) (lastChapterKey (Some ''demo''))
                = Some (toString i)))"
proof -
  have f: "chapterContentEl (loadChapter broken_net 1 demo_loaded) = InnerHTML failed_text"
    by code_simp
  have r: "run [(demo_net, NextClick)] (domContentLoaded demo_net (Some ''demo'') blank_page)
      = Some (nextBtn_click demo_net demo_loaded)"
    by (simp add: demo_loaded_def)
  have b: "localStorage blank_page (lastChapterKey (Some ''demo'')) = None"
    by (simp add: blank_page_def)
  have v: "localStorage (nextBtn_click demo_net demo_loaded) (lastChapterKey (Some ''demo'')) = Some (toString 1)"
    by code_simp
  note t = lastChapter_entry_invariant [of broken_net 1 demo_loaded "[(demo_net, NextClick)]"
      demo_net "Some ''demo''" blank_page]
  show ?thesis using f r b v t by blast
qed

section \<open>Strings, identity and the chapter picker\<close>

subsection \<open>Decimal strings\<close>











subsection \<open>Substrings\<close>








subsection \<open>Object identity and \<open>indexOf\<close>\<close>




subsection \<open>The chapter picker\<close>




text \<open>
  The hypothesis of \<open>search_selects_canonical_index\<close> holds throughout a session: the
  chapter list is empty or is the array that \<open>init\<close> decoded from the manifest.
\<close>

lemma init_chapters: "\<exists>ds. chapters (init net novel s) = json_array ds \<or> chapters (init net novel s) = chapters s"
  by (auto simp: init_def Let_def fetch_def init_catch_def populateChapterList_def loadChapter_frame
      split: option.splits)

lemma session_chapters_from_manifest:
  assumes "run es (domContentLoaded net novel page) = Some s"
  shows "\<exists>ds. chapters s = json_array ds"
proof -
  have "chapters (loadSettings (boot page)) = json_array []"
    by (simp add: loadSettings_eq boot_def json_array_def)
  with init_chapters [of net novel "loadSettings (boot page)"]
  have "\<exists>ds. chapters (domContentLoaded net novel page) = json_array ds"
    unfolding domContentLoaded_def by metis
  moreover have "chapters s = chapters (domContentLoaded net novel page)"
    using run_entry [OF assms, of "localStorage (domContentLoaded net novel page)
          (lastChapterKey (novelFolder (domContentLoaded net novel page)))"]
    by simp
  ultimately show ?thesis by simp
qed


section \<open>Stored preferences\<close>





end
